theory Spec2Isabelle
  imports Main "HOL-Library.Sublist"
begin

section \<open>Strings of the converter package\<close>

text \<open>
  A Go string is a sequence of bytes, so it is modelled as \<^typ>\<open>string\<close> (a list of
  8-bit characters) holding the UTF-8 encoding. The two corner brackets of the source are
  the code points U+300C and U+300D, three bytes each.
\<close>

definition openBracket :: string where
  "openBracket = [CHR 0xE3, CHR 0x80, CHR 0x8C]"

definition closeBracket :: string where
  "closeBracket = [CHR 0xE3, CHR 0x80, CHR 0x8D]"

text \<open>
  The three predicates of package \<open>strings\<close> that the source calls, as the library
  defines them: a length test and a slice comparison for the prefix and the suffix, and
  a search over every start position for containment.
\<close>

definition HasPrefix :: "string \<Rightarrow> string \<Rightarrow> bool" where
  "HasPrefix s p = (length p \<le> length s \<and> take (length p) s = p)"

definition HasSuffix :: "string \<Rightarrow> string \<Rightarrow> bool" where
  "HasSuffix s p = (length p \<le> length s \<and> drop (length s - length p) s = p)"

fun Contains :: "string \<Rightarrow> string \<Rightarrow> bool" where
  "Contains [] sub = HasPrefix [] sub"
| "Contains (c # cs) sub = (HasPrefix (c # cs) sub \<or> Contains cs sub)"

section \<open>AddQuotesIfNeeded\<close>

definition AddQuotesIfNeeded :: "string \<Rightarrow> string" where
  "AddQuotesIfNeeded item =
     (if HasPrefix item openBracket \<and> HasSuffix item closeBracket then item
      else if HasPrefix item openBracket then
        (if Contains item closeBracket then item else item @ closeBracket)
      else if \<not> HasPrefix item openBracket \<and> HasSuffix item closeBracket then
        openBracket @ item
      else openBracket @ item @ closeBracket)"

section \<open>formatCriteriaSection and FormatCriteria\<close>

text \<open>
  \<open>strings.Join\<close>: the elements in order, the separator between neighbours only.
\<close>

fun Join :: "string list \<Rightarrow> string \<Rightarrow> string" where
  "Join [] sep = []"
| "Join [x] sep = x"
| "Join (x # y # ys) sep = x @ sep @ Join (y # ys) sep"

text \<open>
  The \<open>range\<close> loop of \<open>formatCriteriaSection\<close>: each step appends the normalised
  item to the slice built so far.
\<close>

fun formatItems :: "string list \<Rightarrow> string list \<Rightarrow> string list" where
  "formatItems [] formattedItems = formattedItems"
| "formatItems (item # rest) formattedItems =
     formatItems rest (formattedItems @ [AddQuotesIfNeeded item])"

definition formatCriteriaSection :: "string list \<Rightarrow> string \<Rightarrow> string" where
  "formatCriteriaSection items sfx =
     (if length items = 0 then []
      else Join (formatItems items []) [] @ sfx)"

text \<open>
  A value of Go type \<open>map[string][]string\<close>: \<open>None\<close> is the nil map, \<open>Some kvs\<close> a
  map whose entries are \<open>kvs\<close>, listed in the order a \<open>range\<close> loop happens to visit
  them (Go leaves that order open, so nothing may depend on it). A slice value is the
  list of its elements; the source only takes its length and ranges over it, so the nil
  slice and the empty slice are the same list. Indexing the nil map finds nothing.
\<close>

type_synonym criteria = "(string \<times> string list) list option"

definition mapIndex :: "criteria \<Rightarrow> string \<Rightarrow> string list option" where
  "mapIndex m key = (case m of None \<Rightarrow> None | Some kvs \<Rightarrow> map_of kvs key)"

definition mapKeys :: "criteria \<Rightarrow> string list" where
  "mapKeys m = (case m of None \<Rightarrow> [] | Some kvs \<Rightarrow> map fst kvs)"

text \<open>The suffixes and the separator of the source: U+306F U+8AA4 U+7B54,
  U+306F U+3082 U+3046 U+4E00 U+5EA6, and the full-width solidus U+FF0F.\<close>

definition ngSuffix :: string where
  "ngSuffix = [CHR 0xE3, CHR 0x81, CHR 0xAF, CHR 0xE8, CHR 0xAA, CHR 0xA4,
               CHR 0xE7, CHR 0xAD, CHR 0x94]"

definition repeatSuffix :: string where
  "repeatSuffix = [CHR 0xE3, CHR 0x81, CHR 0xAF, CHR 0xE3, CHR 0x82, CHR 0x82,
                   CHR 0xE3, CHR 0x81, CHR 0x86, CHR 0xE4, CHR 0xB8, CHR 0x80,
                   CHR 0xE5, CHR 0xBA, CHR 0xA6]"

definition partSeparator :: string where
  "partSeparator = [CHR 0xEF, CHR 0xBC, CHR 0x8F]"

definition FormatCriteria :: "criteria \<Rightarrow> string" where
  "FormatCriteria m =
     (let parts = [];
          parts = (case mapIndex m ''ok'' of
                     Some ok \<Rightarrow>
                       if length ok > 0 then parts @ [formatCriteriaSection ok []]
                       else parts
                   | None \<Rightarrow> parts);
          parts = (case mapIndex m ''ng'' of
                     Some ng \<Rightarrow>
                       if length ng > 0 then parts @ [formatCriteriaSection ng ngSuffix]
                       else parts
                   | None \<Rightarrow> parts);
          parts = (case mapIndex m ''repeat'' of
                     Some rep \<Rightarrow>
                       if length rep > 0
                       then parts @ [formatCriteriaSection rep repeatSuffix]
                       else parts
                   | None \<Rightarrow> parts)
      in Join parts partSeparator)"

text \<open>
  The list a category contributes: empty when the key is absent.
\<close>

definition category :: "criteria \<Rightarrow> string \<Rightarrow> string list" where
  "category m key = (case mapIndex m key of None \<Rightarrow> [] | Some xs \<Rightarrow> xs)"

text \<open>
  The map without its unrecognised keys.
\<close>

definition validKeys :: "string \<Rightarrow> bool" where
  "validKeys key = (key = ''ok'' \<or> key = ''ng'' \<or> key = ''repeat'')"

definition recognizedOnly :: "criteria \<Rightarrow> criteria" where
  "recognizedOnly m = map_option (filter (\<lambda>kv. validKeys (fst kv))) m"

section \<open>Records and the CSV rows\<close>

record QuizItem =
  Question :: string
  Answer :: string
  Spell :: string
  Comments :: "string list"
  Criteria :: criteria

text \<open>
  The body of the row loop of \<open>ConvertYAMLToCSV\<close>: the criteria column with its nil
  guard, and the four fields handed to the CSV writer. Opening the files and the writer
  itself belong to the standard library and are not modelled.
\<close>

definition criteriaText :: "QuizItem \<Rightarrow> string" where
  "criteriaText item =
     (let text = [] in
      if Criteria item \<noteq> None then FormatCriteria (Criteria item) else text)"

definition csvRow :: "QuizItem \<Rightarrow> string list" where
  "csvRow item = [Question item, Answer item, Spell item, criteriaText item]"

definition csvRows :: "QuizItem list \<Rightarrow> string list list" where
  "csvRows data = [''question'', ''answer'', ''spell'', ''criteria''] # map csvRow data"

section \<open>White space and strings.TrimSpace\<close>

text \<open>
  \<open>strings.TrimSpace\<close> removes the leading and the trailing white space of a string,
  white space being the code points for which \<open>unicode.IsSpace\<close> holds: U+0009 to
  U+000D, U+0020, U+0085, U+00A0, U+1680, U+2000 to U+200A, U+2028, U+2029, U+202F,
  U+205F and U+3000. The library decodes one rune at a time, from the front and then
  from the back; a rune is one of these code points exactly when the bytes read are its
  UTF-8 encoding, so the model compares with the encodings.
\<close>

definition spaceRunes :: "string list" where
  "spaceRunes =
     [[CHR 0x09], [CHR 0x0A], [CHR 0x0B], [CHR 0x0C], [CHR 0x0D], [CHR 0x20],
      [CHR 0xC2, CHR 0x85], [CHR 0xC2, CHR 0xA0],
      [CHR 0xE1, CHR 0x9A, CHR 0x80],
      [CHR 0xE2, CHR 0x80, CHR 0x80], [CHR 0xE2, CHR 0x80, CHR 0x81],
      [CHR 0xE2, CHR 0x80, CHR 0x82], [CHR 0xE2, CHR 0x80, CHR 0x83],
      [CHR 0xE2, CHR 0x80, CHR 0x84], [CHR 0xE2, CHR 0x80, CHR 0x85],
      [CHR 0xE2, CHR 0x80, CHR 0x86], [CHR 0xE2, CHR 0x80, CHR 0x87],
      [CHR 0xE2, CHR 0x80, CHR 0x88], [CHR 0xE2, CHR 0x80, CHR 0x89],
      [CHR 0xE2, CHR 0x80, CHR 0x8A],
      [CHR 0xE2, CHR 0x80, CHR 0xA8], [CHR 0xE2, CHR 0x80, CHR 0xA9],
      [CHR 0xE2, CHR 0x80, CHR 0xAF],
      [CHR 0xE2, CHR 0x81, CHR 0x9F],
      [CHR 0xE3, CHR 0x80, CHR 0x80]]"

text \<open>The width in bytes of the white-space rune a string starts (ends) with, 0 when
  it starts (ends) with none.\<close>

definition leadingSpace :: "string \<Rightarrow> nat" where
  "leadingSpace s = (case find (HasPrefix s) spaceRunes of None \<Rightarrow> 0 | Some e \<Rightarrow> length e)"

definition trailingSpace :: "string \<Rightarrow> nat" where
  "trailingSpace s = (case find (HasSuffix s) spaceRunes of None \<Rightarrow> 0 | Some e \<Rightarrow> length e)"

function TrimLeftSpace :: "string \<Rightarrow> string" where
  "TrimLeftSpace s =
     (if leadingSpace s = 0 then s else TrimLeftSpace (drop (leadingSpace s) s))"
  by pat_completeness auto
termination
proof (relation "measure length")
  show "wf (measure length)"
    by simp
next
  fix s :: string
  assume w: "leadingSpace s \<noteq> 0"
  have "s \<noteq> []"
  proof
    assume "s = []"
    then have "leadingSpace s = 0"
      by (simp add: leadingSpace_def spaceRunes_def HasPrefix_def)
    with w show False
      by simp
  qed
  with w show "(drop (leadingSpace s) s, s) \<in> measure length"
    by simp
qed

function TrimRightSpace :: "string \<Rightarrow> string" where
  "TrimRightSpace s =
     (if trailingSpace s = 0 then s
      else TrimRightSpace (take (length s - trailingSpace s) s))"
  by pat_completeness auto
termination
proof (relation "measure length")
  show "wf (measure length)"
    by simp
next
  fix s :: string
  assume w: "trailingSpace s \<noteq> 0"
  have "s \<noteq> []"
  proof
    assume "s = []"
    then have "trailingSpace s = 0"
      by (simp add: trailingSpace_def spaceRunes_def HasSuffix_def)
    with w show False
      by simp
  qed
  with w show "(take (length s - trailingSpace s) s, s) \<in> measure length"
    by simp
qed

declare TrimLeftSpace.simps [simp del]
declare TrimRightSpace.simps [simp del]

definition TrimSpace :: "string \<Rightarrow> string" where
  "TrimSpace s = TrimRightSpace (TrimLeftSpace s)"

text \<open>
  A string that consists of white space only: white-space runes one after the other,
  up to its end.
\<close>

function allSpace :: "string \<Rightarrow> bool" where
  "allSpace s =
     (if s = [] then True
      else if leadingSpace s = 0 then False
      else allSpace (drop (leadingSpace s) s))"
  by pat_completeness auto
termination
  by (relation "measure length") auto

declare allSpace.simps [simp del]

section \<open>Validation\<close>

text \<open>
  The verb \<open>%d\<close> of \<open>fmt.Sprintf\<close> on an \<open>int\<close>: the decimal digits, with a minus
  sign for a negative number.
\<close>

function decimal :: "nat \<Rightarrow> string" where
  "decimal n =
     (if n < 10 then [''0123456789'' ! n]
      else decimal (n div 10) @ [''0123456789'' ! (n mod 10)])"
  by pat_completeness auto
termination
  by (relation "measure id") auto

declare decimal.simps [simp del]

definition SprintfD :: "int \<Rightarrow> string" where
  "SprintfD i = (if i < 0 then ''-'' @ decimal (nat (- i)) else decimal (nat i))"

text \<open>The fixed pieces of the messages. \<open>msgItem\<close> is U+554F U+984C and a space,
  \<open>msgIsEmpty\<close> a space and U+304C U+7A7A U+3067 U+3059.\<close>

definition msgItem :: string where
  "msgItem = [CHR 0xE5, CHR 0x95, CHR 0x8F, CHR 0xE9, CHR 0xA1, CHR 0x8C] @ '' ''"

definition msgIsEmpty :: string where
  "msgIsEmpty = '' '' @ [CHR 0xE3, CHR 0x81, CHR 0x8C, CHR 0xE7, CHR 0xA9, CHR 0xBA,
                        CHR 0xE3, CHR 0x81, CHR 0xA7, CHR 0xE3, CHR 0x81, CHR 0x99]"

definition msgQuestionEmpty :: string where
  "msgQuestionEmpty =
     [CHR 0xE5, CHR 0x95, CHR 0x8F, CHR 0xE9, CHR 0xA1, CHR 0x8C, CHR 0xE6, CHR 0x96,
      CHR 0x87] @ '' (question) '' @
     [CHR 0xE3, CHR 0x81, CHR 0x8C, CHR 0xE7, CHR 0xA9, CHR 0xBA, CHR 0xE3, CHR 0x81,
      CHR 0xA7, CHR 0xE3, CHR 0x81, CHR 0x99]"

definition msgAnswerEmpty :: string where
  "msgAnswerEmpty =
     [CHR 0xE7, CHR 0xAD, CHR 0x94, CHR 0xE3, CHR 0x81, CHR 0x88] @ '' (answer) '' @
     [CHR 0xE3, CHR 0x81, CHR 0x8C, CHR 0xE7, CHR 0xA9, CHR 0xBA, CHR 0xE3, CHR 0x81,
      CHR 0xA7, CHR 0xE3, CHR 0x81, CHR 0x99]"

definition msgBadKey :: string where
  "msgBadKey =
     [CHR 0xE4, CHR 0xB8, CHR 0x8D, CHR 0xE6, CHR 0xAD, CHR 0xA3, CHR 0xE3, CHR 0x81,
      CHR 0xAA] @ ''criteria'' @
     [CHR 0xE3, CHR 0x82, CHR 0xAD, CHR 0xE3, CHR 0x83, CHR 0xBC] @ '': '' @ [CHR 0x27]"

definition msgAllowedKeys :: string where
  "msgAllowedKeys =
     [CHR 0x27] @ '' ('' @
     [CHR 0xE4, CHR 0xBD, CHR 0xBF, CHR 0xE7, CHR 0x94, CHR 0xA8, CHR 0xE5, CHR 0x8F,
      CHR 0xAF, CHR 0xE8, CHR 0x83, CHR 0xBD] @ '': ok, ng, repeat)''"

definition msgNoData :: string where
  "msgNoData =
     ''YAML'' @
     [CHR 0xE3, CHR 0x83, CHR 0x95, CHR 0xE3, CHR 0x82, CHR 0xA1, CHR 0xE3, CHR 0x82,
      CHR 0xA4, CHR 0xE3, CHR 0x83, CHR 0xAB, CHR 0xE3, CHR 0x81, CHR 0xAB, CHR 0xE3,
      CHR 0x82, CHR 0xAF, CHR 0xE3, CHR 0x82, CHR 0xA4, CHR 0xE3, CHR 0x82, CHR 0xBA,
      CHR 0xE3, CHR 0x83, CHR 0x87, CHR 0xE3, CHR 0x83, CHR 0xBC, CHR 0xE3, CHR 0x82,
      CHR 0xBF, CHR 0xE3, CHR 0x81, CHR 0x8C, CHR 0xE5, CHR 0x90, CHR 0xAB, CHR 0xE3,
      CHR 0x81, CHR 0xBE, CHR 0xE3, CHR 0x82, CHR 0x8C, CHR 0xE3, CHR 0x81, CHR 0xA6,
      CHR 0xE3, CHR 0x81, CHR 0x84, CHR 0xE3, CHR 0x81, CHR 0xBE, CHR 0xE3, CHR 0x81,
      CHR 0x9B, CHR 0xE3, CHR 0x82, CHR 0x93]"

definition msgNoFile :: string where
  "msgNoFile =
     [CHR 0xE3, CHR 0x83, CHR 0x95, CHR 0xE3, CHR 0x82, CHR 0xA1, CHR 0xE3, CHR 0x82,
      CHR 0xA4, CHR 0xE3, CHR 0x83, CHR 0xAB, CHR 0xE3, CHR 0x81, CHR 0x8C, CHR 0xE5,
      CHR 0xAD, CHR 0x98, CHR 0xE5, CHR 0x9C, CHR 0xA8, CHR 0xE3, CHR 0x81, CHR 0x97,
      CHR 0xE3, CHR 0x81, CHR 0xBE, CHR 0xE3, CHR 0x81, CHR 0x9B, CHR 0xE3, CHR 0x82,
      CHR 0x93] @ '': ''"

definition msgLoadError :: string where
  "msgLoadError =
     ''YAML'' @
     [CHR 0xE3, CHR 0x83, CHR 0x95, CHR 0xE3, CHR 0x82, CHR 0xA1, CHR 0xE3, CHR 0x82,
      CHR 0xA4, CHR 0xE3, CHR 0x83, CHR 0xAB, CHR 0xE3, CHR 0x81, CHR 0xAE, CHR 0xE8,
      CHR 0xAA, CHR 0xAD, CHR 0xE3, CHR 0x81, CHR 0xBF, CHR 0xE8, CHR 0xBE, CHR 0xBC,
      CHR 0xE3, CHR 0x81, CHR 0xBF, CHR 0xE3, CHR 0x82, CHR 0xA8, CHR 0xE3, CHR 0x83,
      CHR 0xA9, CHR 0xE3, CHR 0x83, CHR 0xBC] @ '': ''"

text \<open>
  The loops \<open>for j, answer := range xs\<close> of \<open>validateQuizItem\<close>: one message, made
  from the index by \<open>msg\<close>, for every element that is empty after trimming.
\<close>

fun checkElements ::
  "(int \<Rightarrow> string) \<Rightarrow> string list \<Rightarrow> int \<Rightarrow> string list \<Rightarrow> string list" where
  "checkElements msg [] j errors = errors"
| "checkElements msg (answer # rest) j errors =
     checkElements msg rest (j + 1)
       (if TrimSpace answer = [] then errors @ [msg j] else errors)"

text \<open>The loop \<open>for key := range item.Criteria\<close>.\<close>

fun checkKeys :: "string \<Rightarrow> string list \<Rightarrow> string list \<Rightarrow> string list" where
  "checkKeys pfx [] errors = errors"
| "checkKeys pfx (key # rest) errors =
     checkKeys pfx rest
       (if \<not> validKeys key then errors @ [pfx @ msgBadKey @ key @ msgAllowedKeys]
        else errors)"

definition elementMsg :: "string \<Rightarrow> string \<Rightarrow> int \<Rightarrow> string" where
  "elementMsg pfx field j = pfx @ field @ ''['' @ SprintfD j @ '']'' @ msgIsEmpty"

definition validateQuizItem :: "QuizItem \<Rightarrow> int \<Rightarrow> string list" where
  "validateQuizItem item index =
     (let errors = [];
          pfx = msgItem @ SprintfD index @ '': '';
          errors = (if TrimSpace (Question item) = []
                    then errors @ [pfx @ msgQuestionEmpty] else errors);
          errors = (if TrimSpace (Answer item) = []
                    then errors @ [pfx @ msgAnswerEmpty] else errors);
          errors =
            (if Criteria item \<noteq> None then
               (let errors = (case mapIndex (Criteria item) ''ok'' of
                                Some ok \<Rightarrow>
                                  checkElements (elementMsg pfx ''criteria.ok'') ok 0 errors
                              | None \<Rightarrow> errors);
                    errors = (case mapIndex (Criteria item) ''ng'' of
                                Some ng \<Rightarrow>
                                  checkElements (elementMsg pfx ''criteria.ng'') ng 0 errors
                              | None \<Rightarrow> errors);
                    errors = (case mapIndex (Criteria item) ''repeat'' of
                                Some rep \<Rightarrow>
                                  checkElements (elementMsg pfx ''criteria.repeat'') rep 0
                                    errors
                              | None \<Rightarrow> errors)
                in checkKeys pfx (mapKeys (Criteria item)) errors)
             else errors)
      in checkElements (elementMsg pfx ''comments'') (Comments item) 0 errors)"

record ValidationResult =
  IsValid :: bool
  Errors :: "string list"
  Items :: int

text \<open>
  What \<open>ValidateYAMLFile\<close> finds at the path: no file, a file that \<open>LoadYAMLData\<close>
  fails on (with the text of its error), or the records it decodes.
\<close>

datatype yamlFile = NoFile | LoadError string | Loaded "QuizItem list"

text \<open>The loop \<open>for i, item := range data\<close>, \<open>i\<close> being the index of the first
  record of the list. An index is a Go \<open>int\<close> of 64 bits, which no slice is long enough
  to overflow, so it is an \<^typ>\<open>int\<close> here.\<close>

fun validateItems :: "QuizItem list \<Rightarrow> int \<Rightarrow> ValidationResult \<Rightarrow> ValidationResult" where
  "validateItems [] i result = result"
| "validateItems (item # rest) i result =
     (let itemErrors = validateQuizItem item (i + 1) in
      validateItems rest (i + 1)
        (if length itemErrors > 0
         then result\<lparr>IsValid := False, Errors := Errors result @ itemErrors\<rparr>
         else result))"


definition ValidateYAMLFile :: "string \<Rightarrow> yamlFile \<Rightarrow> ValidationResult" where
  "ValidateYAMLFile yamlFilePath file =
     (let result = \<lparr>IsValid = True, Errors = [], Items = 0\<rparr> in
      case file of
        NoFile \<Rightarrow>
          result\<lparr>IsValid := False, Errors := Errors result @ [msgNoFile @ yamlFilePath]\<rparr>
      | LoadError err \<Rightarrow>
          result\<lparr>IsValid := False, Errors := Errors result @ [msgLoadError @ err]\<rparr>
      | Loaded data \<Rightarrow>
          (let result = result\<lparr>Items := int (length data)\<rparr>;
               result = validateItems data 0 result
           in if length data = 0
              then result\<lparr>IsValid := False, Errors := Errors result @ [msgNoData]\<rparr>
              else result))"

section \<open>The findings a validation is to report\<close>

text \<open>
  What the validation pass has to report, written down without the code of
  \<open>validateQuizItem\<close>: every occurrence of an empty or white-space-only required field,
  of an empty or white-space-only element in the list of a category or in the comments,
  and of a key outside the three recognised names.

  \<open>blankElements\<close> gives one message for each element of a list that is empty after
  trimming, made from the position of the element, counted from 0.
\<close>

definition blankElements :: "(int \<Rightarrow> string) \<Rightarrow> string list \<Rightarrow> string list" where
  "blankElements msg xs =
     map (\<lambda>jx. msg (int (fst jx)))
       (filter (\<lambda>jx. TrimSpace (snd jx) = []) (enumerate 0 xs))"

text \<open>
  The findings of one record, in the order question, answer, the elements of ok, of ng
  and of repeat, the unrecognised keys, the comments. A record with the nil map has no
  category and no key.
\<close>

definition itemFindings :: "QuizItem \<Rightarrow> int \<Rightarrow> string list" where
  "itemFindings item index =
     (let pfx = msgItem @ SprintfD index @ '': '' in
      (if TrimSpace (Question item) = [] then [pfx @ msgQuestionEmpty] else []) @
      (if TrimSpace (Answer item) = [] then [pfx @ msgAnswerEmpty] else []) @
      blankElements (elementMsg pfx ''criteria.ok'') (category (Criteria item) ''ok'') @
      blankElements (elementMsg pfx ''criteria.ng'') (category (Criteria item) ''ng'') @
      blankElements (elementMsg pfx ''criteria.repeat'')
        (category (Criteria item) ''repeat'') @
      map (\<lambda>key. pfx @ msgBadKey @ key @ msgAllowedKeys)
        (filter (\<lambda>key. \<not> validKeys key) (mapKeys (Criteria item))) @
      blankElements (elementMsg pfx ''comments'') (Comments item))"

text \<open>
  The findings of every record of a file, in the order of the records, the record at
  position \<open>k\<close> (from 0) being numbered \<open>k + 1\<close>.
\<close>

definition allFindings :: "QuizItem list \<Rightarrow> string list" where
  "allFindings data =
     concat (map (\<lambda>kr. itemFindings (snd kr) (int (fst kr) + 1)) (enumerate 0 data))"

section \<open>Facts about the string predicates\<close>

lemma HasPrefix_iff_prefix: "HasPrefix s p \<longleftrightarrow> prefix p s"
proof
  assume "HasPrefix s p"
  then have "s = p @ drop (length p) s"
    by (metis HasPrefix_def append_take_drop_id)
  then show "prefix p s"
    by (metis prefixI)
next
  assume "prefix p s"
  then obtain r where "s = p @ r"
    by (auto elim: prefixE)
  then show "HasPrefix s p"
    by (simp add: HasPrefix_def)
qed

lemma HasSuffix_iff_suffix: "HasSuffix s p \<longleftrightarrow> suffix p s"
proof
  assume "HasSuffix s p"
  then have "s = take (length s - length p) s @ p"
    by (metis HasSuffix_def append_take_drop_id)
  then show "suffix p s"
    by (metis suffixI)
next
  assume "suffix p s"
  then obtain r where "s = r @ p"
    by (auto elim: suffixE)
  then show "HasSuffix s p"
    by (simp add: HasSuffix_def)
qed

lemma Contains_iff_sublist: "Contains s sub \<longleftrightarrow> sublist sub s"
proof (induction s)
  case Nil
  show ?case
    by (simp add: HasPrefix_iff_prefix)
next
  case (Cons c cs)
  show ?case
    by (simp add: Cons.IH HasPrefix_iff_prefix sublist_Cons_right)
qed

lemma HasPrefix_append: "HasPrefix s p \<Longrightarrow> HasPrefix (s @ t) p"
  by (simp add: HasPrefix_iff_prefix prefix_prefix)

lemma HasPrefix_self_append: "HasPrefix (p @ t) p"
  by (simp add: HasPrefix_iff_prefix)

lemma HasSuffix_append: "HasSuffix s p \<Longrightarrow> HasSuffix (t @ s) p"
  by (simp add: HasSuffix_iff_suffix suffix_appendI)

lemma HasSuffix_self_append: "HasSuffix (t @ p) p"
  by (simp add: HasSuffix_def)

lemma HasSuffix_Contains: "HasSuffix s p \<Longrightarrow> Contains s p"
  by (simp add: HasSuffix_iff_suffix Contains_iff_sublist)

lemma Contains_self_append: "Contains (t @ p) p"
  by (rule HasSuffix_Contains) (rule HasSuffix_self_append)

lemma Contains_middle: "Contains (p @ s @ q) s"
  by (simp add: Contains_iff_sublist)

section \<open>The bracket normaliser\<close>

lemma AddQuotes_HasPrefix: "HasPrefix (AddQuotesIfNeeded s) openBracket"
  by (simp add: AddQuotesIfNeeded_def HasPrefix_append HasPrefix_self_append)

lemma Contains_append_right: "Contains (a @ b @ p) p"
  using Contains_self_append [of "a @ b" p] by simp

lemma AddQuotes_Contains: "Contains (AddQuotesIfNeeded s) closeBracket"
  by (simp add: AddQuotesIfNeeded_def HasSuffix_Contains HasSuffix_append
      Contains_self_append Contains_append_right)

lemma AddQuotes_fixed:
  assumes "HasPrefix r openBracket" and "Contains r closeBracket"
  shows "AddQuotesIfNeeded r = r"
  using assms by (simp add: AddQuotesIfNeeded_def)

text \<open>
  Claim C1. \<open>AddQuotesIfNeeded\<close> follows the decision table in its order of priority:
  a text that starts with the open bracket and ends with the close bracket is returned
  unchanged; one that starts with the open bracket but does not end with the close
  bracket is returned unchanged when it contains a close bracket somewhere, and gets one
  close bracket appended otherwise; one that ends with the close bracket and does not
  start with the open bracket gets one open bracket prepended; every other text gets the
  open bracket prepended and the close bracket appended.
\<close>

theorem AddQuotesIfNeeded_decision_table:
  "(HasPrefix t openBracket \<and> HasSuffix t closeBracket \<longrightarrow> AddQuotesIfNeeded t = t) \<and>
   (HasPrefix t openBracket \<and> \<not> HasSuffix t closeBracket \<longrightarrow>
      (Contains t closeBracket \<longrightarrow> AddQuotesIfNeeded t = t) \<and>
      (\<not> Contains t closeBracket \<longrightarrow> AddQuotesIfNeeded t = t @ closeBracket)) \<and>
   (\<not> HasPrefix t openBracket \<and> HasSuffix t closeBracket \<longrightarrow>
      AddQuotesIfNeeded t = openBracket @ t) \<and>
   (\<not> HasPrefix t openBracket \<and> \<not> HasSuffix t closeBracket \<longrightarrow>
      AddQuotesIfNeeded t = openBracket @ t @ closeBracket)"
  by (simp add: AddQuotesIfNeeded_def)

text \<open>
  The table at the inputs of the package's tests, one for each row (two for the second).
\<close>

theorem AddQuotesIfNeeded_decision_table_witness:
  "(HasPrefix (openBracket @ ''test'' @ closeBracket) openBracket \<and>
    HasSuffix (openBracket @ ''test'' @ closeBracket) closeBracket \<and>
    AddQuotesIfNeeded (openBracket @ ''test'' @ closeBracket) =
      openBracket @ ''test'' @ closeBracket) \<and>
   (HasPrefix (openBracket @ ''test'' @ closeBracket @ ''something'') openBracket \<and>
    \<not> HasSuffix (openBracket @ ''test'' @ closeBracket @ ''something'') closeBracket \<and>
    Contains (openBracket @ ''test'' @ closeBracket @ ''something'') closeBracket \<and>
    AddQuotesIfNeeded (openBracket @ ''test'' @ closeBracket @ ''something'') =
      openBracket @ ''test'' @ closeBracket @ ''something'') \<and>
   (HasPrefix (openBracket @ ''test'') openBracket \<and>
    \<not> HasSuffix (openBracket @ ''test'') closeBracket \<and>
    \<not> Contains (openBracket @ ''test'') closeBracket \<and>
    AddQuotesIfNeeded (openBracket @ ''test'') = openBracket @ ''test'' @ closeBracket) \<and>
   (\<not> HasPrefix (''test'' @ closeBracket) openBracket \<and>
    HasSuffix (''test'' @ closeBracket) closeBracket \<and>
    AddQuotesIfNeeded (''test'' @ closeBracket) = openBracket @ ''test'' @ closeBracket) \<and>
   (\<not> HasPrefix ''test'' openBracket \<and>
    \<not> HasSuffix ''test'' closeBracket \<and>
    AddQuotesIfNeeded ''test'' = openBracket @ ''test'' @ closeBracket)"
  using AddQuotesIfNeeded_decision_table [of "openBracket @ ''test'' @ closeBracket"]
    AddQuotesIfNeeded_decision_table [of "openBracket @ ''test'' @ closeBracket @ ''something''"]
    AddQuotesIfNeeded_decision_table [of "openBracket @ ''test''"]
    AddQuotesIfNeeded_decision_table [of "''test'' @ closeBracket"]
    AddQuotesIfNeeded_decision_table [of "''test''"]
  by (simp add: HasPrefix_def HasSuffix_def openBracket_def closeBracket_def)

text \<open>
  Claim C3. The normaliser is idempotent: applying it to its own result changes nothing.
\<close>

theorem AddQuotesIfNeeded_idempotent:
  "AddQuotesIfNeeded (AddQuotesIfNeeded s) = AddQuotesIfNeeded s"
  by (rule AddQuotes_fixed) (rule AddQuotes_HasPrefix, rule AddQuotes_Contains)

lemma AddQuotes_frame:
  "\<exists>p q. AddQuotesIfNeeded s = p @ s @ q \<and> (p = [] \<or> p = openBracket) \<and> (q = [] \<or> q = closeBracket)"
proof -
  have "AddQuotesIfNeeded s = [] @ s @ [] \<or> AddQuotesIfNeeded s = [] @ s @ closeBracket \<or>
        AddQuotesIfNeeded s = openBracket @ s @ [] \<or>
        AddQuotesIfNeeded s = openBracket @ s @ closeBracket"
    by (simp add: AddQuotesIfNeeded_def)
  then show ?thesis
    by blast
qed

text \<open>
  Claim C9. The result of \<open>AddQuotesIfNeeded\<close> starts with the open bracket, contains
  a close bracket, and contains the input as a contiguous part: it is the input with
  nothing or the open bracket in front and nothing or the close bracket behind.
\<close>

theorem AddQuotesIfNeeded_output_invariant:
  "HasPrefix (AddQuotesIfNeeded s) openBracket \<and>
   Contains (AddQuotesIfNeeded s) closeBracket \<and>
   Contains (AddQuotesIfNeeded s) s \<and>
   (\<exists>p q. AddQuotesIfNeeded s = p @ s @ q \<and> (p = [] \<or> p = openBracket) \<and>
      (q = [] \<or> q = closeBracket))"
proof -
  obtain p q where pq: "AddQuotesIfNeeded s = p @ s @ q"
    using AddQuotes_frame [of s] by blast
  have "Contains (AddQuotesIfNeeded s) s"
    unfolding pq by (rule Contains_middle)
  then show ?thesis
    using AddQuotes_HasPrefix [of s] AddQuotes_Contains [of s] AddQuotes_frame [of s]
    by blast
qed

section \<open>The criteria formatter\<close>

lemma formatItems_map:
  "formatItems items formattedItems = formattedItems @ map AddQuotesIfNeeded items"
  by (induction items arbitrary: formattedItems) simp_all

lemma Join_no_separator: "Join xs [] = concat xs"
  by (induction xs "[] :: string" rule: Join.induct) simp_all

lemma formatCriteriaSection_concat:
  "formatCriteriaSection items sfx =
     (if items = [] then [] else concat (map AddQuotesIfNeeded items) @ sfx)"
  by (simp add: formatCriteriaSection_def formatItems_map Join_no_separator)

lemma AddQuotes_nonempty: "AddQuotesIfNeeded s \<noteq> []"
  using AddQuotes_HasPrefix [of s] by (auto simp: HasPrefix_def openBracket_def)

lemma formatCriteriaSection_empty_iff:
  "formatCriteriaSection items sfx = [] \<longleftrightarrow> items = []"
  by (cases items) (simp_all add: formatCriteriaSection_concat AddQuotes_nonempty)

text \<open>
  Claim C4. \<open>formatCriteriaSection\<close> returns the empty string for an empty list, and
  otherwise the normalised elements in their order, nothing between them, followed by the
  suffix; so the list of \<open>a\<close> and \<open>b\<close> with suffix \<open>Y\<close> gives the two bracketed
  letters and then \<open>Y\<close>.
\<close>

theorem formatCriteriaSection_spec:
  "formatCriteriaSection items sfx =
     (if items = [] then [] else concat (map AddQuotesIfNeeded items) @ sfx) \<and>
   formatCriteriaSection [] ''X'' = [] \<and>
   formatCriteriaSection [''a''] [] = openBracket @ ''a'' @ closeBracket \<and>
   formatCriteriaSection [''a'', ''b''] ''Y'' =
     openBracket @ ''a'' @ closeBracket @ openBracket @ ''b'' @ closeBracket @ ''Y''"
proof -
  have a: "AddQuotesIfNeeded ''a'' = openBracket @ ''a'' @ closeBracket"
    by (simp add: AddQuotesIfNeeded_def HasPrefix_def HasSuffix_def openBracket_def
        closeBracket_def)
  have b: "AddQuotesIfNeeded ''b'' = openBracket @ ''b'' @ closeBracket"
    by (simp add: AddQuotesIfNeeded_def HasPrefix_def HasSuffix_def openBracket_def
        closeBracket_def)
  show ?thesis
    by (simp add: formatCriteriaSection_concat a b)
qed

lemma FormatCriteria_sections:
  "FormatCriteria m =
     Join (filter (\<lambda>s. s \<noteq> [])
            [formatCriteriaSection (category m ''ok'') [],
             formatCriteriaSection (category m ''ng'') ngSuffix,
             formatCriteriaSection (category m ''repeat'') repeatSuffix])
       partSeparator"
  by (simp add: FormatCriteria_def category_def formatCriteriaSection_empty_iff
      split: option.split)

lemma FormatCriteria_cong:
  assumes "mapIndex m' ''ok'' = mapIndex m ''ok''"
    and "mapIndex m' ''ng'' = mapIndex m ''ng''"
    and "mapIndex m' ''repeat'' = mapIndex m ''repeat''"
  shows "FormatCriteria m' = FormatCriteria m"
  by (simp add: FormatCriteria_def assms)

lemma FormatCriteria_order_irrelevant:
  assumes "distinct (map fst kvs)" and "distinct (map fst kvs')" and "set kvs' = set kvs"
  shows "FormatCriteria (Some kvs') = FormatCriteria (Some kvs)"
proof -
  have "map_of kvs' = map_of kvs"
    using assms by (simp add: map_of_inject_set)
  then show ?thesis
    by (simp add: FormatCriteria_cong mapIndex_def)
qed

lemma FormatCriteria_all_sections:
  "FormatCriteria (Some [(''ok'', [''ok1'', ''ok2'']), (''ng'', [''ng1'']), (''repeat'', [''rep1''])]) =
     openBracket @ ''ok1'' @ closeBracket @ openBracket @ ''ok2'' @ closeBracket @
     partSeparator @ openBracket @ ''ng1'' @ closeBracket @ ngSuffix @
     partSeparator @ openBracket @ ''rep1'' @ closeBracket @ repeatSuffix"
proof -
  have q: "AddQuotesIfNeeded ''ok1'' = openBracket @ ''ok1'' @ closeBracket"
    "AddQuotesIfNeeded ''ok2'' = openBracket @ ''ok2'' @ closeBracket"
    "AddQuotesIfNeeded ''ng1'' = openBracket @ ''ng1'' @ closeBracket"
    "AddQuotesIfNeeded ''rep1'' = openBracket @ ''rep1'' @ closeBracket"
    by (simp_all add: AddQuotesIfNeeded_def HasPrefix_def HasSuffix_def openBracket_def
        closeBracket_def)
  show ?thesis
    by (simp add: FormatCriteria_def mapIndex_def formatCriteriaSection_concat q)
qed

text \<open>
  Claim C2. \<open>FormatCriteria\<close> takes the categories in the order ok (no suffix), ng,
  repeat, leaves out a category that is absent or empty, and joins the sections that
  remain with the separator; a section is the empty string exactly when its list is
  empty. Two maps with the same entries, visited in any two orders, give the same string. The map of the specification's example gives the string of the
  example.
\<close>

theorem FormatCriteria_fixed_order:
  "FormatCriteria m =
     Join (filter (\<lambda>s. s \<noteq> [])
            [formatCriteriaSection (category m ''ok'') [],
             formatCriteriaSection (category m ''ng'') ngSuffix,
             formatCriteriaSection (category m ''repeat'') repeatSuffix])
       partSeparator \<and>
   (formatCriteriaSection items sfx = [] \<longleftrightarrow> items = []) \<and>
   (distinct (map fst kvs) \<and> distinct (map fst kvs') \<and> set kvs' = set kvs \<longrightarrow>
      FormatCriteria (Some kvs') = FormatCriteria (Some kvs)) \<and>
   FormatCriteria
     (Some [(''ok'', [''ok1'', ''ok2'']), (''ng'', [''ng1'']), (''repeat'', [''rep1''])]) =
     openBracket @ ''ok1'' @ closeBracket @ openBracket @ ''ok2'' @ closeBracket @
     partSeparator @ openBracket @ ''ng1'' @ closeBracket @ ngSuffix @
     partSeparator @ openBracket @ ''rep1'' @ closeBracket @ repeatSuffix"
  using FormatCriteria_sections [of m] FormatCriteria_order_irrelevant [of kvs kvs']
    FormatCriteria_all_sections formatCriteriaSection_empty_iff [of items sfx]
  by blast

text \<open>
  The example with its entries visited in the opposite order.
\<close>

theorem FormatCriteria_fixed_order_witness:
  "distinct (map fst [(''ok'', [''ok1'', ''ok2'']), (''ng'', [''ng1'']), (''repeat'', [''rep1''])]) \<and>
   distinct (map fst [(''repeat'', [''rep1'']), (''ng'', [''ng1'']), (''ok'', [''ok1'', ''ok2''])]) \<and>
   set [(''repeat'', [''rep1'']), (''ng'', [''ng1'']), (''ok'', [''ok1'', ''ok2''])] =
   set [(''ok'', [''ok1'', ''ok2'']), (''ng'', [''ng1'']), (''repeat'', [''rep1''])] \<and>
   FormatCriteria
     (Some [(''repeat'', [''rep1'']), (''ng'', [''ng1'']), (''ok'', [''ok1'', ''ok2''])]) =
     openBracket @ ''ok1'' @ closeBracket @ openBracket @ ''ok2'' @ closeBracket @
     partSeparator @ openBracket @ ''ng1'' @ closeBracket @ ngSuffix @
     partSeparator @ openBracket @ ''rep1'' @ closeBracket @ repeatSuffix"
proof -
  have d1: "distinct (map fst [(''ok'', [''ok1'', ''ok2'']), (''ng'', [''ng1'']), (''repeat'', [''rep1''])])"
    by simp
  have d2: "distinct (map fst [(''repeat'', [''rep1'']), (''ng'', [''ng1'']), (''ok'', [''ok1'', ''ok2''])])"
    by simp
  have e: "set [(''repeat'', [''rep1'']), (''ng'', [''ng1'']), (''ok'', [''ok1'', ''ok2''])] =
     set [(''ok'', [''ok1'', ''ok2'']), (''ng'', [''ng1'']), (''repeat'', [''rep1''])]"
    by auto
  show ?thesis
    using d1 d2 e
      FormatCriteria_fixed_order [of "Some []" "[]" "[]"
        "[(''ok'', [''ok1'', ''ok2'']), (''ng'', [''ng1'']), (''repeat'', [''rep1''])]"
        "[(''repeat'', [''rep1'']), (''ng'', [''ng1'']), (''ok'', [''ok1'', ''ok2''])]"]
    by simp
qed

section \<open>Unknown keys, nil maps and empty files\<close>

lemma map_of_filter_keys:
  "P k \<Longrightarrow> map_of (filter (\<lambda>kv. P (fst kv)) kvs) k = map_of kvs k"
  by (induction kvs) auto

lemma mapIndex_recognizedOnly:
  "validKeys k \<Longrightarrow> mapIndex (recognizedOnly m) k = mapIndex m k"
  by (cases m) (simp_all add: mapIndex_def recognizedOnly_def map_of_filter_keys)

lemma FormatCriteria_recognizedOnly:
  "FormatCriteria (recognizedOnly m) = FormatCriteria m"
  by (rule FormatCriteria_cong) (simp_all add: mapIndex_recognizedOnly validKeys_def)

lemma mapKeys_recognizedOnly:
  "set (mapKeys (recognizedOnly m)) = {k \<in> set (mapKeys m). validKeys k}"
  by (cases m) (auto simp: mapKeys_def recognizedOnly_def)

lemma FormatCriteria_nothing:
  assumes "category m ''ok'' = []" and "category m ''ng'' = []"
    and "category m ''repeat'' = []"
  shows "FormatCriteria m = []"
  by (simp add: FormatCriteria_sections assms formatCriteriaSection_def)

lemma FormatCriteria_nil: "FormatCriteria None = []"
  by (simp add: FormatCriteria_def mapIndex_def)

lemma FormatCriteria_empty: "FormatCriteria (Some []) = []"
  by (simp add: FormatCriteria_def mapIndex_def)

text \<open>
  Claim C5. \<open>FormatCriteria\<close> has a result for every map, and no error among its
  results. Keys other than ok, ng and repeat contribute nothing: the map restricted to
  the three recognised keys gives the same string. When each of the three categories is
  absent or empty the result is the empty string, as it is for the empty map.
\<close>

theorem FormatCriteria_ignores_unknown_keys:
  "FormatCriteria (recognizedOnly m) = FormatCriteria m \<and>
   set (mapKeys (recognizedOnly m)) = {k \<in> set (mapKeys m). validKeys k} \<and>
   (category m ''ok'' = [] \<and> category m ''ng'' = [] \<and> category m ''repeat'' = [] \<longrightarrow>
      FormatCriteria m = []) \<and>
   FormatCriteria (Some []) = []"
  using FormatCriteria_recognizedOnly [of m] mapKeys_recognizedOnly [of m]
    FormatCriteria_nothing [of m] FormatCriteria_empty
  by blast

text \<open>
  A map with an unrecognised key and an empty ok list.
\<close>

theorem FormatCriteria_ignores_unknown_keys_witness:
  "category (Some [(''hint'', [''x'']), (''ok'', [])]) ''ok'' = [] \<and>
   category (Some [(''hint'', [''x'']), (''ok'', [])]) ''ng'' = [] \<and>
   category (Some [(''hint'', [''x'']), (''ok'', [])]) ''repeat'' = [] \<and>
   recognizedOnly (Some [(''hint'', [''x'']), (''ok'', [])]) = Some [(''ok'', [])] \<and>
   FormatCriteria (Some [(''hint'', [''x'']), (''ok'', [])]) = [] \<and>
   FormatCriteria (Some [(''ok'', [])]) = []"
  using FormatCriteria_ignores_unknown_keys [of "Some [(''hint'', [''x'']), (''ok'', [])]"]
  by (simp add: category_def mapIndex_def recognizedOnly_def validKeys_def)

text \<open>
  Claim C10. \<open>FormatCriteria\<close> of the nil map is the empty string, as for the empty
  map, so the criteria column of a CSV row is \<open>FormatCriteria\<close> of the record's map
  whether the guard against nil is there or not.
\<close>

theorem FormatCriteria_nil_map:
  "FormatCriteria None = [] \<and>
   FormatCriteria None = FormatCriteria (Some []) \<and>
   criteriaText item = FormatCriteria (Criteria item) \<and>
   csvRow item = [Question item, Answer item, Spell item, FormatCriteria (Criteria item)]"
  by (simp add: FormatCriteria_nil FormatCriteria_empty criteriaText_def csvRow_def)

text \<open>
  Claim C7. A file with no records is reported as invalid, with the message that it
  holds no quiz data as the only issue and a record count of zero.
\<close>

theorem ValidateYAMLFile_no_records:
  "ValidateYAMLFile yamlFilePath (Loaded []) =
     \<lparr>IsValid = False, Errors = [msgNoData], Items = 0\<rparr>"
  by (simp add: ValidateYAMLFile_def)

section \<open>White space\<close>

lemma leadingSpace_rune:
  assumes "leadingSpace s \<noteq> 0"
  obtains e where "e \<in> set spaceRunes" and "leadingSpace s = length e" and "HasPrefix s e"
proof (cases "find (HasPrefix s) spaceRunes")
  case None
  with assms show ?thesis
    by (simp add: leadingSpace_def)
next
  case (Some e)
  then have "e \<in> set spaceRunes" and "HasPrefix s e"
    by (auto simp: find_Some_iff)
  moreover have "leadingSpace s = length e"
    by (simp add: leadingSpace_def Some)
  ultimately show ?thesis
    using that by blast
qed

lemma leadingSpace_Nil: "leadingSpace [] = 0"
  by (simp add: leadingSpace_def spaceRunes_def HasPrefix_def)

lemma trailingSpace_Nil: "trailingSpace [] = 0"
  by (simp add: trailingSpace_def spaceRunes_def HasSuffix_def)

lemma spaceRunes_not_open:
  "e \<in> set spaceRunes \<Longrightarrow> \<not> prefix e openBracket \<and> \<not> prefix openBracket e"
  by (auto simp: spaceRunes_def openBracket_def)

lemma spaceRunes_last: "e \<in> set spaceRunes \<Longrightarrow> e \<noteq> [] \<and> last e \<noteq> CHR 0x8D"
  by (auto simp: spaceRunes_def)

lemma allSpace_step:
  assumes "allSpace s" and "s \<noteq> []"
  shows "leadingSpace s \<noteq> 0" and "allSpace (drop (leadingSpace s) s)"
  using assms allSpace.simps [of s] by (auto split: if_splits)

lemma allSpace_not_open:
  assumes "allSpace s"
  shows "\<not> HasPrefix s openBracket"
proof
  assume p: "HasPrefix s openBracket"
  then have "s \<noteq> []"
    by (auto simp: HasPrefix_def openBracket_def)
  with assms have "leadingSpace s \<noteq> 0"
    by (rule allSpace_step)
  then obtain e where e: "e \<in> set spaceRunes" "HasPrefix s e"
    by (rule leadingSpace_rune)
  from e(2) p have "prefix e openBracket \<or> prefix openBracket e"
    by (simp add: HasPrefix_iff_prefix prefix_same_cases)
  with spaceRunes_not_open [OF e(1)] show False
    by blast
qed

lemma allSpace_last: "allSpace s \<Longrightarrow> s \<noteq> [] \<Longrightarrow> last s \<noteq> CHR 0x8D"
proof (induction s rule: allSpace.induct)
  case (1 s)
  let ?r = "drop (leadingSpace s) s"
  have w: "leadingSpace s \<noteq> 0" and r: "allSpace ?r"
    using "1.prems" by (rule allSpace_step)+
  from w obtain e where e: "e \<in> set spaceRunes" "leadingSpace s = length e" "HasPrefix s e"
    by (rule leadingSpace_rune)
  have s: "s = e @ ?r"
    using e(2,3) by (metis HasPrefix_def append_take_drop_id)
  show ?case
  proof (cases "?r = []")
    case True
    with s have "s = e"
      by simp
    with spaceRunes_last [OF e(1)] show ?thesis
      by simp
  next
    case False
    with "1.IH" [OF "1.prems"(2) w r] have "last ?r \<noteq> CHR 0x8D"
      by simp
    moreover have "last s = last ?r"
      using False s by (metis last_appendR)
    ultimately show ?thesis
      by simp
  qed
qed

lemma allSpace_not_close:
  assumes "allSpace s"
  shows "\<not> HasSuffix s closeBracket"
proof
  assume "HasSuffix s closeBracket"
  then obtain t where "s = t @ closeBracket"
    by (auto simp: HasSuffix_iff_suffix elim: suffixE)
  then have "s \<noteq> []" and "last s = CHR 0x8D"
    by (simp_all add: closeBracket_def)
  with allSpace_last [OF assms] show False
    by blast
qed

lemma allSpace_TrimLeftSpace: "allSpace s \<Longrightarrow> TrimLeftSpace s = []"
proof (induction s rule: allSpace.induct)
  case (1 s)
  show ?case
  proof (cases "s = []")
    case True
    then show ?thesis
      by (simp add: TrimLeftSpace.simps [of "[]"] leadingSpace_Nil)
  next
    case False
    with "1.prems" have w: "leadingSpace s \<noteq> 0" and r: "allSpace (drop (leadingSpace s) s)"
      by (rule allSpace_step)+
    from "1.IH" [OF False w r] w show ?thesis
      by (simp add: TrimLeftSpace.simps [of s])
  qed
qed

lemma TrimSpace_Nil: "TrimSpace [] = []"
  by (simp add: TrimSpace_def TrimLeftSpace.simps [of "[]"] TrimRightSpace.simps [of "[]"]
      leadingSpace_Nil trailingSpace_Nil)

lemma allSpace_TrimSpace: "allSpace s \<Longrightarrow> TrimSpace s = []"
  by (simp add: TrimSpace_def allSpace_TrimLeftSpace TrimRightSpace.simps [of "[]"]
      trailingSpace_Nil)

text \<open>
  The strings of white space only are exactly those that \<open>strings.TrimSpace\<close> reduces
  to the empty string, which is the test \<open>validateQuizItem\<close> applies.
\<close>

lemma spaceRunes_nonempty: "e \<in> set spaceRunes \<Longrightarrow> e \<noteq> []"
  by (auto simp: spaceRunes_def)

lemma leadingSpace_iff: "leadingSpace s \<noteq> 0 \<longleftrightarrow> (\<exists>e\<in>set spaceRunes. HasPrefix s e)"
proof (cases "find (HasPrefix s) spaceRunes")
  case None
  have "leadingSpace s = 0"
    by (simp add: leadingSpace_def None)
  moreover have "\<not> (\<exists>e\<in>set spaceRunes. HasPrefix s e)"
    using None by (simp add: find_None_iff)
  ultimately show ?thesis
    by blast
next
  case (Some e)
  then have "e \<in> set spaceRunes" and "HasPrefix s e"
    by (auto simp: find_Some_iff)
  moreover have "leadingSpace s = length e"
    by (simp add: leadingSpace_def Some)
  ultimately show ?thesis
    using spaceRunes_nonempty [of e] by auto
qed

lemma trailingSpace_rune:
  assumes "trailingSpace s \<noteq> 0"
  obtains e where "e \<in> set spaceRunes" and "trailingSpace s = length e" and "HasSuffix s e"
proof (cases "find (HasSuffix s) spaceRunes")
  case None
  with assms show ?thesis
    by (simp add: trailingSpace_def)
next
  case (Some e)
  then have "e \<in> set spaceRunes" and "HasSuffix s e"
    by (auto simp: find_Some_iff)
  moreover have "trailingSpace s = length e"
    by (simp add: trailingSpace_def Some)
  ultimately show ?thesis
    using that by blast
qed

lemma allSpace_iff_TrimLeftSpace: "allSpace s \<longleftrightarrow> TrimLeftSpace s = []"
proof (induction s rule: allSpace.induct)
  case (1 s)
  show ?case
  proof (cases "s = [] \<or> leadingSpace s = 0")
    case True
    then show ?thesis
      by (auto simp: allSpace.simps [of s] TrimLeftSpace.simps [of s] leadingSpace_Nil)
  next
    case False
    with "1.IH" show ?thesis
      by (simp add: allSpace.simps [of s] TrimLeftSpace.simps [of s])
  qed
qed

lemma TrimRightSpace_empty_leading:
  "TrimRightSpace t = [] \<Longrightarrow> t \<noteq> [] \<Longrightarrow> leadingSpace t \<noteq> 0"
proof (induction t rule: TrimRightSpace.induct)
  case (1 t)
  let ?r = "take (length t - trailingSpace t) t"
  have w: "trailingSpace t \<noteq> 0"
    using "1.prems" by (auto simp: TrimRightSpace.simps [of t] split: if_splits)
  then have r: "TrimRightSpace ?r = []"
    using "1.prems"(1) by (simp add: TrimRightSpace.simps [of t])
  from w obtain e where e: "e \<in> set spaceRunes" "trailingSpace t = length e" "HasSuffix t e"
    by (rule trailingSpace_rune)
  have t: "t = ?r @ e"
    using e(2,3) by (metis HasSuffix_def append_take_drop_id)
  show ?case
  proof (cases "?r = []")
    case True
    with t have "t = e"
      by simp
    then have "HasPrefix t e"
      by (simp add: HasPrefix_def)
    with e(1) show ?thesis
      using leadingSpace_iff [of t] by blast
  next
    case False
    with "1.IH" [OF w r] obtain e' where e': "e' \<in> set spaceRunes" "HasPrefix ?r e'"
      using leadingSpace_iff [of ?r] by blast
    from e'(2) have "HasPrefix (?r @ e) e'"
      by (rule HasPrefix_append)
    with t have "HasPrefix t e'"
      by simp
    with e'(1) show ?thesis
      using leadingSpace_iff [of t] by blast
  qed
qed

lemma TrimLeftSpace_no_leading: "leadingSpace (TrimLeftSpace s) = 0"
proof (induction s rule: TrimLeftSpace.induct)
  case (1 s)
  then show ?case
    by (cases "leadingSpace s = 0") (simp_all add: TrimLeftSpace.simps [of s])
qed

lemma TrimSpace_empty_iff_allSpace: "TrimSpace s = [] \<longleftrightarrow> allSpace s"
proof
  assume "TrimSpace s = []"
  then have "TrimRightSpace (TrimLeftSpace s) = []"
    by (simp add: TrimSpace_def)
  with TrimRightSpace_empty_leading [of "TrimLeftSpace s"] TrimLeftSpace_no_leading [of s]
  have "TrimLeftSpace s = []"
    by blast
  then show "allSpace s"
    by (simp add: allSpace_iff_TrimLeftSpace)
next
  assume "allSpace s"
  then show "TrimSpace s = []"
    by (rule allSpace_TrimSpace)
qed

text \<open>
  Claim C8. The empty string becomes the empty bracketed pair. A string of white space
  only is treated like any other text: it neither starts with the open bracket nor ends
  with the close bracket, so it gets the open bracket prepended and the close bracket
  appended, and nothing is trimmed.
\<close>

theorem AddQuotesIfNeeded_empty_and_blank:
  "AddQuotesIfNeeded [] = openBracket @ closeBracket \<and>
   (allSpace s \<longrightarrow> AddQuotesIfNeeded s = openBracket @ s @ closeBracket)"
proof -
  have "AddQuotesIfNeeded [] = openBracket @ closeBracket"
    by (simp add: AddQuotesIfNeeded_def HasPrefix_def HasSuffix_def openBracket_def
        closeBracket_def)
  moreover have "AddQuotesIfNeeded s = openBracket @ s @ closeBracket" if "allSpace s"
    using allSpace_not_open [OF that] allSpace_not_close [OF that]
    by (simp add: AddQuotesIfNeeded_def)
  ultimately show ?thesis
    by blast
qed

text \<open>
  A space, a tab and the ideographic space U+3000, whose encoding shares two bytes with
  the brackets.
\<close>

theorem AddQuotesIfNeeded_empty_and_blank_witness:
  "allSpace ('' '' @ [CHR 0x09, CHR 0xE3, CHR 0x80, CHR 0x80]) \<and>
   AddQuotesIfNeeded ('' '' @ [CHR 0x09, CHR 0xE3, CHR 0x80, CHR 0x80]) =
     openBracket @ '' '' @ [CHR 0x09, CHR 0xE3, CHR 0x80, CHR 0x80] @ closeBracket"
proof -
  have b: "allSpace ('' '' @ [CHR 0x09, CHR 0xE3, CHR 0x80, CHR 0x80])"
    by code_simp
  with AddQuotesIfNeeded_empty_and_blank [of "'' '' @ [CHR 0x09, CHR 0xE3, CHR 0x80, CHR 0x80]"]
  show ?thesis
    by simp
qed

section \<open>Validation findings\<close>

lemma checkElements_clean:
  "(\<forall>x\<in>set xs. TrimSpace x \<noteq> []) \<Longrightarrow> checkElements msg xs j errors = errors"
  by (induction xs arbitrary: j errors) simp_all

lemma checkCategory_clean:
  assumes "\<forall>xs. mapIndex m key = Some xs \<longrightarrow> (\<forall>x\<in>set xs. TrimSpace x \<noteq> [])"
  shows "(case mapIndex m key of Some xs \<Rightarrow> checkElements msg xs j errors | None \<Rightarrow> errors) =
         errors"
  using assms by (simp add: checkElements_clean split: option.split)

lemma checkKeys_filter:
  "checkKeys pfx keys errors =
     errors @ map (\<lambda>key. pfx @ msgBadKey @ key @ msgAllowedKeys)
                (filter (\<lambda>key. \<not> validKeys key) keys)"
  by (induction keys arbitrary: errors) simp_all

lemma SprintfD_1: "SprintfD 1 = ''1''"
  by code_simp

lemma checkElements_enumerate:
  "checkElements msg xs (int n) errors =
     errors @ map (\<lambda>jx. msg (int (fst jx)))
                (filter (\<lambda>jx. TrimSpace (snd jx) = []) (enumerate n xs))"
proof (induction xs arbitrary: n errors)
  case Nil
  show ?case
    by simp
next
  case (Cons x xs)
  have e: "int n + 1 = int (Suc n)"
    by simp
  show ?case
    using Cons.IH [of "Suc n"] by (simp add: e del: of_nat_Suc)
qed

lemma checkElements_blankElements:
  "checkElements msg xs 0 errors = errors @ blankElements msg xs"
  using checkElements_enumerate [of msg xs 0 errors] by (simp add: blankElements_def)

lemma checkCategory_blankElements:
  "(case mapIndex m key of Some xs \<Rightarrow> checkElements msg xs 0 errors | None \<Rightarrow> errors) =
     errors @ blankElements msg (category m key)"
  by (simp add: category_def checkElements_blankElements blankElements_def
      split: option.split)

lemma validateQuizItem_itemFindings: "validateQuizItem item index = itemFindings item index"
proof (cases "Criteria item")
  case None
  then show ?thesis
    by (simp add: validateQuizItem_def itemFindings_def Let_def checkElements_blankElements
        category_def mapIndex_def mapKeys_def blankElements_def)
next
  case (Some kvs)
  then have "Criteria item \<noteq> None"
    by simp
  then show ?thesis
    by (simp add: validateQuizItem_def itemFindings_def Let_def checkElements_blankElements
        checkCategory_blankElements checkKeys_filter)
qed

lemma length_filter_enumerate:
  "length (filter (\<lambda>jx. P (snd jx)) (enumerate n xs)) = length (filter P xs)"
  by (induction xs arbitrary: n) simp_all

lemma length_blankElements:
  "length (blankElements msg xs) = length (filter (\<lambda>x. TrimSpace x = []) xs)"
  using length_filter_enumerate [of "\<lambda>x. TrimSpace x = []" 0 xs]
  by (simp add: blankElements_def)

lemma length_itemFindings:
  "length (itemFindings item index) =
     (if TrimSpace (Question item) = [] then 1 else 0) +
     (if TrimSpace (Answer item) = [] then 1 else 0) +
     length (filter (\<lambda>x. TrimSpace x = []) (category (Criteria item) ''ok'')) +
     length (filter (\<lambda>x. TrimSpace x = []) (category (Criteria item) ''ng'')) +
     length (filter (\<lambda>x. TrimSpace x = []) (category (Criteria item) ''repeat'')) +
     length (filter (\<lambda>key. \<not> validKeys key) (mapKeys (Criteria item))) +
     length (filter (\<lambda>x. TrimSpace x = []) (Comments item))"
  by (simp add: itemFindings_def Let_def length_blankElements)

lemma validateItems_enumerate:
  "Errors (validateItems data (int n) result) =
     Errors result @
     concat (map (\<lambda>kr. itemFindings (snd kr) (int (fst kr) + 1)) (enumerate n data)) \<and>
   IsValid (validateItems data (int n) result) =
     (IsValid result \<and>
      concat (map (\<lambda>kr. itemFindings (snd kr) (int (fst kr) + 1)) (enumerate n data)) = []) \<and>
   Items (validateItems data (int n) result) = Items result"
proof (induction data arbitrary: n result)
  case Nil
  show ?case
    by simp
next
  case (Cons item rest)
  have e: "int n + 1 = int (Suc n)"
    by simp
  show ?case
    using Cons.IH [of "Suc n"]
    by (simp add: Let_def validateQuizItem_itemFindings e del: of_nat_Suc)
qed

lemma ValidateYAMLFile_accumulates:
  "Errors (ValidateYAMLFile yamlFilePath (Loaded data)) =
     allFindings data @ (if data = [] then [msgNoData] else []) \<and>
   IsValid (ValidateYAMLFile yamlFilePath (Loaded data)) =
     (allFindings data = [] \<and> data \<noteq> []) \<and>
   Items (ValidateYAMLFile yamlFilePath (Loaded data)) = int (length data)"
  using validateItems_enumerate [of data 0]
  by (simp add: ValidateYAMLFile_def Let_def allFindings_def)

lemma validateQuizItem_two_findings:
  assumes q: "TrimSpace (Question item) \<noteq> []"
    and a: "Answer item = []"
    and k: "filter (\<lambda>key. \<not> validKeys key) (mapKeys (Criteria item)) = [bad]"
    and l: "\<forall>key xs. validKeys key \<and> mapIndex (Criteria item) key = Some xs \<longrightarrow>
              (\<forall>x\<in>set xs. TrimSpace x \<noteq> [])"
    and c: "\<forall>x\<in>set (Comments item). TrimSpace x \<noteq> []"
  shows "validateQuizItem item index =
           [msgItem @ SprintfD index @ '': '' @ msgAnswerEmpty,
            msgItem @ SprintfD index @ '': '' @ msgBadKey @ bad @ msgAllowedKeys]"
proof -
  have n: "Criteria item \<noteq> None"
    using k by (cases "Criteria item") (simp_all add: mapKeys_def)
  have ok: "\<forall>xs. mapIndex (Criteria item) ''ok'' = Some xs \<longrightarrow> (\<forall>x\<in>set xs. TrimSpace x \<noteq> [])"
    and ng: "\<forall>xs. mapIndex (Criteria item) ''ng'' = Some xs \<longrightarrow> (\<forall>x\<in>set xs. TrimSpace x \<noteq> [])"
    and rep: "\<forall>xs. mapIndex (Criteria item) ''repeat'' = Some xs \<longrightarrow>
                (\<forall>x\<in>set xs. TrimSpace x \<noteq> [])"
    using l by (auto simp: validKeys_def)
  show ?thesis
    by (simp add: validateQuizItem_def Let_def q a n TrimSpace_Nil
        checkCategory_clean [OF ok] checkCategory_clean [OF ng] checkCategory_clean [OF rep]
        checkKeys_filter k checkElements_clean [OF c])
qed

text \<open>
  Claim C6, as amended. Validation collects every finding before it returns and never
  stops at the first one. For every record, \<open>validateQuizItem\<close> returns exactly the
  findings listed by \<open>itemFindings\<close>: one for a blank question, one for a blank answer,
  one for each blank element of the ok, ng and repeat lists, one for each unrecognised
  key, one for each blank comment; so their number is the sum of these counts. For every
  file, the issues reported are the findings of all its records, in order, and the result
  is valid exactly when there are records and none has a finding. In particular, for a
  file whose only record has a question that is not empty after trimming, an empty
  answer, no comment that is empty after trimming, exactly one unrecognised key among the
  keys of its criteria map, and no element that is empty after trimming in the lists of
  the recognised keys, the result is invalid with exactly two issues, the first for the
  empty answer and the second for the unrecognised key.
\<close>

theorem ValidateYAMLFile_collects_all_findings:
  "validateQuizItem item index = itemFindings item index \<and>
   length (validateQuizItem item index) =
     (if TrimSpace (Question item) = [] then 1 else 0) +
     (if TrimSpace (Answer item) = [] then 1 else 0) +
     length (filter (\<lambda>x. TrimSpace x = []) (category (Criteria item) ''ok'')) +
     length (filter (\<lambda>x. TrimSpace x = []) (category (Criteria item) ''ng'')) +
     length (filter (\<lambda>x. TrimSpace x = []) (category (Criteria item) ''repeat'')) +
     length (filter (\<lambda>key. \<not> validKeys key) (mapKeys (Criteria item))) +
     length (filter (\<lambda>x. TrimSpace x = []) (Comments item)) \<and>
   Errors (ValidateYAMLFile yamlFilePath (Loaded data)) =
     allFindings data @ (if data = [] then [msgNoData] else []) \<and>
   IsValid (ValidateYAMLFile yamlFilePath (Loaded data)) =
     (allFindings data = [] \<and> data \<noteq> []) \<and>
   (TrimSpace (Question item) \<noteq> [] \<and> Answer item = [] \<and>
    filter (\<lambda>key. \<not> validKeys key) (mapKeys (Criteria item)) = [bad] \<and>
    (\<forall>key xs. validKeys key \<and> mapIndex (Criteria item) key = Some xs \<longrightarrow>
       (\<forall>x\<in>set xs. TrimSpace x \<noteq> [])) \<and>
    (\<forall>x\<in>set (Comments item). TrimSpace x \<noteq> []) \<longrightarrow>
    ValidateYAMLFile yamlFilePath (Loaded [item]) =
      \<lparr>IsValid = False,
       Errors = [msgItem @ ''1: '' @ msgAnswerEmpty,
                 msgItem @ ''1: '' @ msgBadKey @ bad @ msgAllowedKeys],
       Items = 1\<rparr>)"
proof -
  have "ValidateYAMLFile yamlFilePath (Loaded [item]) =
      \<lparr>IsValid = False,
       Errors = [msgItem @ ''1: '' @ msgAnswerEmpty,
                 msgItem @ ''1: '' @ msgBadKey @ bad @ msgAllowedKeys],
       Items = 1\<rparr>"
    if "TrimSpace (Question item) \<noteq> []" and "Answer item = []"
      and "filter (\<lambda>key. \<not> validKeys key) (mapKeys (Criteria item)) = [bad]"
      and "\<forall>key xs. validKeys key \<and> mapIndex (Criteria item) key = Some xs \<longrightarrow>
             (\<forall>x\<in>set xs. TrimSpace x \<noteq> [])"
      and "\<forall>x\<in>set (Comments item). TrimSpace x \<noteq> []"
    using validateQuizItem_two_findings [OF that, of 1]
    by (simp add: ValidateYAMLFile_def Let_def SprintfD_1)
  moreover have "length (validateQuizItem item index) =
     (if TrimSpace (Question item) = [] then 1 else 0) +
     (if TrimSpace (Answer item) = [] then 1 else 0) +
     length (filter (\<lambda>x. TrimSpace x = []) (category (Criteria item) ''ok'')) +
     length (filter (\<lambda>x. TrimSpace x = []) (category (Criteria item) ''ng'')) +
     length (filter (\<lambda>x. TrimSpace x = []) (category (Criteria item) ''repeat'')) +
     length (filter (\<lambda>key. \<not> validKeys key) (mapKeys (Criteria item))) +
     length (filter (\<lambda>x. TrimSpace x = []) (Comments item))"
    using length_itemFindings [of item index] by (simp only: validateQuizItem_itemFindings)
  ultimately show ?thesis
    using ValidateYAMLFile_accumulates [of yamlFilePath data]
      validateQuizItem_itemFindings [of item index]
    by blast
qed

text \<open>
  A record with an ok list, one unrecognised key and a comment.
\<close>

theorem ValidateYAMLFile_collects_all_findings_witness:
  "TrimSpace (Question \<lparr>Question = ''Q'', Answer = [], Spell = [], Comments = [''note''],
      Criteria = Some [(''ok'', [''a'']), (''hint'', [[]])]\<rparr>) \<noteq> [] \<and>
   Answer \<lparr>Question = ''Q'', Answer = [], Spell = [], Comments = [''note''],
      Criteria = Some [(''ok'', [''a'']), (''hint'', [[]])]\<rparr> = [] \<and>
   filter (\<lambda>key. \<not> validKeys key)
     (mapKeys (Criteria \<lparr>Question = ''Q'', Answer = [], Spell = [], Comments = [''note''],
        Criteria = Some [(''ok'', [''a'']), (''hint'', [[]])]\<rparr>)) = [''hint''] \<and>
   ValidateYAMLFile ''quiz.yaml''
     (Loaded [\<lparr>Question = ''Q'', Answer = [], Spell = [], Comments = [''note''],
        Criteria = Some [(''ok'', [''a'']), (''hint'', [[]])]\<rparr>]) =
     \<lparr>IsValid = False,
      Errors = [msgItem @ ''1: '' @ msgAnswerEmpty,
                msgItem @ ''1: '' @ msgBadKey @ ''hint'' @ msgAllowedKeys],
      Items = 1\<rparr>"
proof -
  let ?item = "\<lparr>Question = ''Q'', Answer = [], Spell = [], Comments = [''note''],
      Criteria = Some [(''ok'', [''a'']), (''hint'', [[]])]\<rparr>"
  have t: "TrimSpace ''Q'' \<noteq> []" "TrimSpace ''a'' \<noteq> []" "TrimSpace ''note'' \<noteq> []"
    by code_simp+
  have q: "TrimSpace (Question ?item) \<noteq> []"
    using t by simp
  have k: "filter (\<lambda>key. \<not> validKeys key) (mapKeys (Criteria ?item)) = [''hint'']"
    by (simp add: validKeys_def mapKeys_def)
  have l: "\<forall>key xs. validKeys key \<and> mapIndex (Criteria ?item) key = Some xs \<longrightarrow>
             (\<forall>x\<in>set xs. TrimSpace x \<noteq> [])"
    using t by (auto simp: validKeys_def mapIndex_def)
  have c: "\<forall>x\<in>set (Comments ?item). TrimSpace x \<noteq> []"
    using t by simp
  show ?thesis
    using q k l c
      ValidateYAMLFile_collects_all_findings [where item = ?item and bad = "''hint''"
        and yamlFilePath = "''quiz.yaml''"]
    by simp
qed

text \<open>
  Claim C6 without the condition on the comments: a record with a non-empty question,
  an empty answer, one unrecognised key and one empty comment gets three issues, the
  third for the comment.
\<close>

theorem ValidateYAMLFile_blank_comment_counterexample:
  "Errors (ValidateYAMLFile ''quiz.yaml''
     (Loaded [\<lparr>Question = ''Q'', Answer = [], Spell = [], Comments = [[]],
        Criteria = Some [(''hint'', [])]\<rparr>])) =
     [msgItem @ ''1: '' @ msgAnswerEmpty,
      msgItem @ ''1: '' @ msgBadKey @ ''hint'' @ msgAllowedKeys,
      msgItem @ ''1: comments[0]'' @ msgIsEmpty] \<and>
   length (Errors (ValidateYAMLFile ''quiz.yaml''
     (Loaded [\<lparr>Question = ''Q'', Answer = [], Spell = [], Comments = [[]],
        Criteria = Some [(''hint'', [])]\<rparr>]))) \<noteq> 2"
  by code_simp

end
